theory Spec2Isabelle
  imports Main "HOL-Library.Word"
begin

section \<open>Data model of board/encoder.go\<close>

text \<open>
  The position counter is a Go \<open>int64\<close> touched only through \<open>sync/atomic\<close>:
  \<open>AddInt64\<close> wraps at the width, so it is a 64-bit word. Every atomic operation is
  one indivisible step, hence an interleaving of the consumer loop with callers of
  \<open>Position\<close> and \<open>Zero\<close> is a sequence of such steps.
\<close>

type_synonym int64 = "64 word"

text \<open>Go's \<open>error\<close> interface: \<open>nil\<close> is \<open>None\<close>.\<close>

datatype go_error = GoError string

type_synonym error = "go_error option"

text \<open>
  \<open>type HallEncoder struct { a, b DigitalInterrupt; position int64 }\<close>.
  \<open>DigitalInterrupt\<close> is an interface declared elsewhere; it is the type parameter
  \<open>'i\<close>. The fields carry the prefix \<open>hall_\<close> because \<open>SingleEncoder\<close> has a field
  \<open>position\<close> too.
\<close>

record 'i HallEncoder =
  hall_a :: 'i
  hall_b :: 'i
  hall_position :: int64

text \<open>
  \<open>type SingleEncoder struct { i DigitalInterrupt; position int64; M *EncodedMotor }\<close>.
  The pointer \<open>M\<close> is \<open>None\<close> when nil.
\<close>

record ('i, 'm) SingleEncoder =
  single_i :: 'i
  single_position :: int64
  single_M :: "'m option"

text \<open>
  Modelled from the spec: the enum \<open>pb.DirectionRelative\<close> is declared outside the
  sources at hand. The spec calls it three-valued: FORWARD, BACKWARD, or OFF/unknown.
  The loop names the first two constants; every other value takes the last branch.
\<close>

datatype DirectionRelative =
    DIRECTION_RELATIVE_UNSPECIFIED
  | DIRECTION_RELATIVE_FORWARD
  | DIRECTION_RELATIVE_BACKWARD

section \<open>Constructors and counter operations\<close>

definition NewHallEncoder :: "'i \<Rightarrow> 'i \<Rightarrow> 'i HallEncoder" where
  "NewHallEncoder a b = \<lparr>hall_a = a, hall_b = b, hall_position = 0\<rparr>"

text \<open>\<open>&SingleEncoder{i: i}\<close>: the other fields take their zero values.\<close>

definition NewSingleEncoder :: "'i \<Rightarrow> ('i, 'm) SingleEncoder" where
  "NewSingleEncoder i = \<lparr>single_i = i, single_position = 0, single_M = None\<rparr>"

text \<open>The context argument \<open>ctx\<close> of \<open>Position\<close> and \<open>Zero\<close> is never read.\<close>

definition HallEncoder_Position :: "'c \<Rightarrow> 'i HallEncoder \<Rightarrow> int64 \<times> error" where
  "HallEncoder_Position ctx e = (hall_position e, None)"

definition HallEncoder_Zero :: "'c \<Rightarrow> int64 \<Rightarrow> 'i HallEncoder \<Rightarrow> 'i HallEncoder \<times> error" where
  "HallEncoder_Zero ctx offset e = (e\<lparr>hall_position := offset\<rparr>, None)"

definition HallEncoder_RawPosition :: "'i HallEncoder \<Rightarrow> int64" where
  "HallEncoder_RawPosition e = hall_position e"

definition HallEncoder_inc :: "'i HallEncoder \<Rightarrow> 'i HallEncoder" where
  "HallEncoder_inc e = e\<lparr>hall_position := hall_position e + 1\<rparr>"

definition HallEncoder_dec :: "'i HallEncoder \<Rightarrow> 'i HallEncoder" where
  "HallEncoder_dec e = e\<lparr>hall_position := hall_position e + (- 1)\<rparr>"

definition SingleEncoder_Position :: "'c \<Rightarrow> ('i, 'm) SingleEncoder \<Rightarrow> int64 \<times> error" where
  "SingleEncoder_Position ctx e = (single_position e, None)"

definition SingleEncoder_Zero ::
  "'c \<Rightarrow> int64 \<Rightarrow> ('i, 'm) SingleEncoder \<Rightarrow> ('i, 'm) SingleEncoder \<times> error" where
  "SingleEncoder_Zero ctx offset e = (e\<lparr>single_position := offset\<rparr>, None)"

section \<open>The consumer loops\<close>

text \<open>
  Both loops are \<open>for { select { case <-cancelCtx.Done(): return; default: } ;
  select { case <-cancelCtx.Done(): return; case ... } ; body }\<close>. What the two
  \<open>select\<close> statements see is the environment of one iteration:
  \<^item> \<open>firedAtTop\<close>: the cancellation signal has fired when the non-blocking \<open>select\<close> at
    the top runs. That \<open>select\<close> has a \<open>default\<close>, so it returns exactly when the
    signal has fired.
  \<^item> \<open>chosen\<close>: the case the blocking \<open>select\<close> takes. When several of its cases are
    ready Go picks one of them at random, so a ready channel may be taken although
    the signal has fired.
  \<^item> \<open>firedAtRecv\<close>: the cancellation signal has fired when the blocking \<open>select\<close>
    takes its case. The loop never reads it; it records the instant the signal fires.
\<close>

datatype 'ev select_result = CtxDone | Recv 'ev

record 'ev iter_env =
  firedAtTop :: bool
  firedAtRecv :: bool
  chosen :: "'ev select_result"

text \<open>An iteration either goes round again or leaves the goroutine by \<open>return\<close>.\<close>

datatype loop_ctl = Continue | Return

subsection \<open>HallEncoder.Start\<close>

text \<open>A delivery on \<open>chanA\<close> or on \<open>chanB\<close>, with the level it carries.\<close>

datatype hall_event = ChanA bool | ChanB bool

fun hall_isA :: "hall_event \<Rightarrow> bool" where
  "hall_isA (ChanA level) = True"
| "hall_isA (ChanB level) = False"

fun hall_level :: "hall_event \<Rightarrow> bool" where
  "hall_level (ChanA level) = level"
| "hall_level (ChanB level) = level"

text \<open>The variables local to the goroutine.\<close>

record hall_locals =
  aLevel :: bool
  bLevel :: bool
  lastWasA :: bool
  lastLevel :: bool

text \<open>Their values before the first iteration: all four are the constant \<open>true\<close>.\<close>

definition hall_locals_init :: hall_locals where
  "hall_locals_init = \<lparr>aLevel = True, bLevel = True, lastWasA = True, lastLevel = True\<rparr>"

text \<open>The four-way \<open>if / else if\<close> chain on the cached levels; it has no final \<open>else\<close>.\<close>

definition hall_table :: "hall_locals \<Rightarrow> 'i HallEncoder \<Rightarrow> 'i HallEncoder" where
  "hall_table l e =
     (if \<not> aLevel l \<and> \<not> bLevel l then
        (if lastWasA l then HallEncoder_inc e else HallEncoder_dec e)
      else if \<not> aLevel l \<and> bLevel l then
        (if lastWasA l then HallEncoder_dec e else HallEncoder_inc e)
      else if aLevel l \<and> bLevel l then
        (if lastWasA l then HallEncoder_inc e else HallEncoder_dec e)
      else if aLevel l \<and> \<not> bLevel l then
        (if lastWasA l then HallEncoder_dec e else HallEncoder_inc e)
      else e)"

text \<open>
  The part of the body after the blocking \<open>select\<close>: the duplicate filter (\<open>continue\<close>),
  the update of \<open>lastWasA\<close> and \<open>lastLevel\<close>, and the table.
\<close>

definition hall_decode ::
  "bool \<Rightarrow> bool \<Rightarrow> 'i HallEncoder \<times> hall_locals \<Rightarrow> 'i HallEncoder \<times> hall_locals" where
  "hall_decode isA level st =
     (case st of (e, l) \<Rightarrow>
        if isA = lastWasA l \<and> level = lastLevel l then (e, l)
        else
          (let l' = l\<lparr>lastWasA := isA, lastLevel := level\<rparr>
           in (hall_table l' e, l')))"

definition hall_iteration ::
  "hall_event iter_env \<Rightarrow> 'i HallEncoder \<times> hall_locals \<Rightarrow>
     loop_ctl \<times> 'i HallEncoder \<times> hall_locals" where
  "hall_iteration env st =
     (if firedAtTop env then (Return, st)
      else
        (case chosen env of
           CtxDone \<Rightarrow> (Return, st)
         | Recv (ChanA level) \<Rightarrow>
             (case st of (e, l) \<Rightarrow> (Continue, hall_decode True level (e, l\<lparr>aLevel := level\<rparr>)))
         | Recv (ChanB level) \<Rightarrow>
             (case st of (e, l) \<Rightarrow> (Continue, hall_decode False level (e, l\<lparr>bLevel := level\<rparr>)))))"

text \<open>
  The \<open>for\<close> loop over the iterations the environment supplies. When the list is used
  up the loop is blocked in a \<open>select\<close>: it has not returned.
\<close>

fun hall_loop ::
  "hall_event iter_env list \<Rightarrow> 'i HallEncoder \<times> hall_locals \<Rightarrow>
     loop_ctl \<times> 'i HallEncoder \<times> hall_locals" where
  "hall_loop [] st = (Continue, st)"
| "hall_loop (env # envs) st =
     (case hall_iteration env st of
        (Return, st') \<Rightarrow> (Return, st')
      | (Continue, st') \<Rightarrow> hall_loop envs st')"

text \<open>
  \<open>Start\<close> spawns the goroutine, which initialises its locals and enters the loop.
  Registering the callbacks, the wait group and \<open>onStart\<close> do not touch the counter.
\<close>

definition HallEncoder_Start ::
  "hall_event iter_env list \<Rightarrow> 'i HallEncoder \<Rightarrow> loop_ctl \<times> 'i HallEncoder \<times> hall_locals" where
  "HallEncoder_Start envs e = hall_loop envs (e, hall_locals_init)"

text \<open>An iteration in which nothing is cancelled and the blocking \<open>select\<close> receives \<open>ev\<close>.\<close>

definition deliver :: "'ev \<Rightarrow> 'ev iter_env" where
  "deliver ev = \<lparr>firedAtTop = False, firedAtRecv = False, chosen = Recv ev\<rparr>"

subsection \<open>SingleEncoder.Start\<close>

text \<open>
  One pulse: the value received from \<open>encoderChannel\<close> (the loop drops it) and what
  \<open>e.M.rawDirection()\<close> returns right after. The motor's direction is changed by
  another goroutine, so each read is an input.
\<close>

record single_event =
  pulse :: bool
  rawDirection :: DirectionRelative

text \<open>The loop's state: the encoder and the warnings handed to \<open>e.M.logger.Warn\<close> so far.\<close>

type_synonym ('i, 'm) single_state = "('i, 'm) SingleEncoder \<times> string list"

text \<open>The body after the blocking \<open>select\<close>; \<open>rpmDebug\<close> is read once before the loop.\<close>

definition single_count ::
  "bool \<Rightarrow> DirectionRelative \<Rightarrow> ('i, 'm) single_state \<Rightarrow> ('i, 'm) single_state" where
  "single_count rpmDebug dir st =
     (case st of (e, warnings) \<Rightarrow>
        if dir = DIRECTION_RELATIVE_FORWARD then
          (e\<lparr>single_position := single_position e + 1\<rparr>, warnings)
        else if dir = DIRECTION_RELATIVE_BACKWARD then
          (e\<lparr>single_position := single_position e + (- 1)\<rparr>, warnings)
        else if rpmDebug then
          (e, warnings @ [''got encoder tick but motor should be off''])
        else (e, warnings))"

definition single_iteration ::
  "bool \<Rightarrow> single_event iter_env \<Rightarrow> ('i, 'm) single_state \<Rightarrow> loop_ctl \<times> ('i, 'm) single_state" where
  "single_iteration rpmDebug env st =
     (if firedAtTop env then (Return, st)
      else
        (case chosen env of
           CtxDone \<Rightarrow> (Return, st)
         | Recv ev \<Rightarrow> (Continue, single_count rpmDebug (rawDirection ev) st)))"

fun single_loop ::
  "bool \<Rightarrow> single_event iter_env list \<Rightarrow> ('i, 'm) single_state \<Rightarrow>
     loop_ctl \<times> ('i, 'm) single_state" where
  "single_loop rpmDebug [] st = (Continue, st)"
| "single_loop rpmDebug (env # envs) st =
     (case single_iteration rpmDebug env st of
        (Return, st') \<Rightarrow> (Return, st')
      | (Continue, st') \<Rightarrow> single_loop rpmDebug envs st')"

definition SingleEncoder_Start ::
  "bool \<Rightarrow> single_event iter_env list \<Rightarrow> ('i, 'm) single_state \<Rightarrow>
     loop_ctl \<times> ('i, 'm) single_state" where
  "SingleEncoder_Start rpmDebug envs st = single_loop rpmDebug envs st"

section \<open>Vocabulary of the properties\<close>

text \<open>
  An iteration accepts its event when it gets past both \<open>select\<close> statements with a
  delivery and the test \<open>isA == lastWasA && level == lastLevel\<close> is false.
\<close>

definition hall_accepts :: "hall_event iter_env \<Rightarrow> hall_locals \<Rightarrow> bool" where
  "hall_accepts env l =
     (\<not> firedAtTop env \<and>
      (case chosen env of
         CtxDone \<Rightarrow> False
       | Recv ev \<Rightarrow> \<not> (hall_isA ev = lastWasA l \<and> hall_level ev = lastLevel l)))"


text \<open>
  The four edges of one full rotation that begins with the lines at levels \<open>(a, b)\<close>.
  Forward is the order of the spec's example: from \<open>(false, false)\<close> line A rises, B
  rises, A falls, B falls; the other three phases are its cyclic shifts. Reverse is the
  same cycle run backwards.
\<close>

definition forward_rotation :: "bool \<Rightarrow> bool \<Rightarrow> hall_event list" where
  "forward_rotation a b =
     (if a = b then [ChanA (\<not> a), ChanB (\<not> b), ChanA a, ChanB b]
      else [ChanB (\<not> b), ChanA (\<not> a), ChanB b, ChanA a])"

definition reverse_rotation :: "bool \<Rightarrow> bool \<Rightarrow> hall_event list" where
  "reverse_rotation a b =
     (if a = b then [ChanB (\<not> b), ChanA (\<not> a), ChanB b, ChanA a]
      else [ChanA (\<not> a), ChanB (\<not> b), ChanA a, ChanB b])"

text \<open>
  The level remembered for the last accepted event is the cached level of its channel.
  The loop keeps this true from \<open>Start\<close> on (lemma \<open>hall_loop_consistent\<close>).
\<close>

definition hall_consistent :: "hall_locals \<Rightarrow> bool" where
  "hall_consistent l = ((if lastWasA l then aLevel l else bLevel l) = lastLevel l)"

text \<open>
  A context that is done stays done: along the iterations, once the signal has fired at
  one \<open>select\<close> it has fired at every later one.
\<close>

fun signal_latched :: "'ev iter_env list \<Rightarrow> bool" where
  "signal_latched [] = True"
| "signal_latched [v] = (firedAtTop v \<longrightarrow> firedAtRecv v)"
| "signal_latched (v # w # envs) =
     ((firedAtTop v \<longrightarrow> firedAtRecv v) \<and> (firedAtRecv v \<longrightarrow> firedAtTop w) \<and>
      signal_latched (w # envs))"

section \<open>Construction, Position and Zero\<close>

text \<open>
  C9. A decoder fresh from \<open>NewHallEncoder\<close> or \<open>NewSingleEncoder\<close>, before any
  \<open>Start\<close>, \<open>Zero\<close> or event, has position 0: \<open>Position\<close> returns 0 on it.
\<close>

theorem new_encoder_position_zero:
  "HallEncoder_Position ctx (NewHallEncoder a b) = (0, None) \<and>
   SingleEncoder_Position ctx (NewSingleEncoder i) = (0, None)"
  by (simp add: HallEncoder_Position_def NewHallEncoder_def
      SingleEncoder_Position_def NewSingleEncoder_def)

text \<open>
  C7. For every context, offset and counter state, \<open>Position\<close> and \<open>Zero\<close> of both
  decoders succeed: \<open>Position\<close> returns a value with a nil error, \<open>Zero\<close> a nil error.
\<close>

theorem position_zero_always_succeed:
  "snd (HallEncoder_Position ctx e) = None \<and>
   snd (HallEncoder_Zero ctx offset e) = None \<and>
   snd (SingleEncoder_Position ctx s) = None \<and>
   snd (SingleEncoder_Zero ctx offset s) = None"
  by (simp add: HallEncoder_Position_def HallEncoder_Zero_def
      SingleEncoder_Position_def SingleEncoder_Zero_def)

section \<open>One iteration of the Hall loop\<close>

lemma hall_iteration_event:
  "\<not> firedAtTop env \<Longrightarrow> chosen env = Recv ev \<Longrightarrow>
   hall_iteration env (e, l) =
     (Continue, hall_decode (hall_isA ev) (hall_level ev)
        (e, if hall_isA ev then l\<lparr>aLevel := hall_level ev\<rparr> else l\<lparr>bLevel := hall_level ev\<rparr>))"
  by (cases ev) (simp_all add: hall_iteration_def)

lemma hall_iteration_deliver:
  "hall_iteration (deliver ev) (e, l) =
     (Continue, hall_decode (hall_isA ev) (hall_level ev)
        (e, if hall_isA ev then l\<lparr>aLevel := hall_level ev\<rparr> else l\<lparr>bLevel := hall_level ev\<rparr>))"
  by (simp add: hall_iteration_event deliver_def)

lemma hall_iteration_cancelled:
  "firedAtTop env \<or> chosen env = CtxDone \<Longrightarrow> hall_iteration env st = (Return, st)"
  by (auto simp: hall_iteration_def)

lemma hall_decode_position:
  "hall_decode isA level (e, l) =
     (if isA = lastWasA l \<and> level = lastLevel l then (e, l)
      else (hall_table (l\<lparr>lastWasA := isA, lastLevel := level\<rparr>) e,
            l\<lparr>lastWasA := isA, lastLevel := level\<rparr>))"
  by (simp add: hall_decode_def Let_def)

lemma hall_table_position:
  "hall_position (hall_table l e) =
     (if aLevel l = bLevel l then (if lastWasA l then hall_position e + 1 else hall_position e - 1)
      else (if lastWasA l then hall_position e - 1 else hall_position e + 1))"
  by (auto simp: hall_table_def HallEncoder_inc_def HallEncoder_dec_def)

lemma hall_table_eq:
  "hall_table l e =
     e\<lparr>hall_position :=
         (if aLevel l = bLevel l then (if lastWasA l then hall_position e + 1 else hall_position e - 1)
          else (if lastWasA l then hall_position e - 1 else hall_position e + 1))\<rparr>"
  by (auto simp: hall_table_def HallEncoder_inc_def HallEncoder_dec_def)

text \<open>
  C1. For every edge event the Hall loop accepts, the counter follows the transition
  table. With the cached levels as they are after the event is recorded: at
  \<open>(false, false)\<close> or \<open>(true, true)\<close> an edge from channel A increments and one from
  channel B decrements; at \<open>(false, true)\<close> or \<open>(true, false)\<close> an edge from channel A
  decrements and one from channel B increments.
\<close>

theorem hall_accepted_edge_follows_table:
  assumes "\<not> firedAtTop env" and "chosen env = Recv ev"
    and "\<not> (hall_isA ev = lastWasA l \<and> hall_level ev = lastLevel l)"
    and "hall_iteration env (e, l) = (c, e', l')"
  shows "aLevel l' = (if hall_isA ev then hall_level ev else aLevel l) \<and>
         bLevel l' = (if hall_isA ev then bLevel l else hall_level ev) \<and>
         lastWasA l' = hall_isA ev \<and> lastLevel l' = hall_level ev \<and>
         (\<not> aLevel l' \<and> \<not> bLevel l' \<or> aLevel l' \<and> bLevel l' \<longrightarrow>
            hall_position e' = (if hall_isA ev then hall_position e + 1 else hall_position e - 1)) \<and>
         (\<not> aLevel l' \<and> bLevel l' \<or> aLevel l' \<and> \<not> bLevel l' \<longrightarrow>
            hall_position e' = (if hall_isA ev then hall_position e - 1 else hall_position e + 1))"
  using assms
  by (cases ev) (auto simp: hall_iteration_def hall_decode_def Let_def hall_table_position)

theorem hall_accepted_edge_follows_table_witness:
  "hall_position (fst (snd (hall_iteration (deliver (ChanB True))
      (NewHallEncoder (0::nat) 1, hall_locals_init)))) = - 1 \<and>
   hall_position (fst (snd (hall_iteration (deliver (ChanB False))
      (NewHallEncoder (0::nat) 1, hall_locals_init)))) = 1"
  using
    hall_accepted_edge_follows_table
      [of "deliver (ChanB True)" "ChanB True" hall_locals_init "NewHallEncoder (0::nat) 1"
        "fst (hall_iteration (deliver (ChanB True)) (NewHallEncoder (0::nat) 1, hall_locals_init))"
        "fst (snd (hall_iteration (deliver (ChanB True)) (NewHallEncoder (0::nat) 1, hall_locals_init)))"
        "snd (snd (hall_iteration (deliver (ChanB True)) (NewHallEncoder (0::nat) 1, hall_locals_init)))"]
    hall_accepted_edge_follows_table
      [of "deliver (ChanB False)" "ChanB False" hall_locals_init "NewHallEncoder (0::nat) 1"
        "fst (hall_iteration (deliver (ChanB False)) (NewHallEncoder (0::nat) 1, hall_locals_init))"
        "fst (snd (hall_iteration (deliver (ChanB False)) (NewHallEncoder (0::nat) 1, hall_locals_init)))"
        "snd (snd (hall_iteration (deliver (ChanB False)) (NewHallEncoder (0::nat) 1, hall_locals_init)))"]
  by (simp add: deliver_def hall_locals_init_def NewHallEncoder_def)

text \<open>
  C3. An event on the channel of the last accepted event, carrying that event's level,
  is dropped: the iteration goes round again with the encoder untouched (only the
  cached level of the channel is written, \<open>lastWasA\<close> and \<open>lastLevel\<close> stay). In
  particular, from any state, the second of two consecutive deliveries of the same
  channel and level leaves the loop where the first left it, so \<open>Position\<close> changes by 0.
\<close>

theorem hall_duplicate_event_discarded:
  "(\<not> firedAtTop env \<and> chosen env = Recv ev \<and>
      hall_isA ev = lastWasA l \<and> hall_level ev = lastLevel l \<longrightarrow>
        hall_iteration env (e, l) =
          (Continue, e, if hall_isA ev then l\<lparr>aLevel := hall_level ev\<rparr> else l\<lparr>bLevel := hall_level ev\<rparr>)) \<and>
   hall_loop [deliver ev, deliver ev] (e, l) = hall_loop [deliver ev] (e, l) \<and>
   HallEncoder_Position ctx (fst (snd (hall_loop [deliver ev, deliver ev] (e, l)))) =
     HallEncoder_Position ctx (fst (snd (hall_loop [deliver ev] (e, l))))"
proof -
  have a: "\<not> firedAtTop env \<Longrightarrow> chosen env = Recv ev \<Longrightarrow>
      hall_isA ev = lastWasA l \<Longrightarrow> hall_level ev = lastLevel l \<Longrightarrow>
        hall_iteration env (e, l) =
          (Continue, e, if hall_isA ev then l\<lparr>aLevel := hall_level ev\<rparr> else l\<lparr>bLevel := hall_level ev\<rparr>)"
    by (cases ev) (simp_all add: hall_iteration_def hall_decode_def)
  have b: "hall_loop [deliver ev, deliver ev] (e, l) = hall_loop [deliver ev] (e, l)"
    by (cases ev) (simp_all add: hall_iteration_def deliver_def hall_decode_def Let_def)
  have c: "HallEncoder_Position ctx (fst (snd (hall_loop [deliver ev, deliver ev] (e, l)))) =
     HallEncoder_Position ctx (fst (snd (hall_loop [deliver ev] (e, l))))"
    by (simp only: b)
  from a b c show ?thesis by blast
qed

theorem hall_duplicate_event_discarded_witness:
  "hall_iteration (deliver (ChanB False))
     (\<lparr>hall_a = (0::nat), hall_b = 1, hall_position = 7\<rparr>,
      \<lparr>aLevel = True, bLevel = False, lastWasA = False, lastLevel = False\<rparr>) =
   (Continue, \<lparr>hall_a = 0, hall_b = 1, hall_position = 7\<rparr>,
      \<lparr>aLevel = True, bLevel = False, lastWasA = False, lastLevel = False\<rparr>)"
  using hall_duplicate_event_discarded [of "deliver (ChanB False)" "ChanB False"
      "\<lparr>aLevel = True, bLevel = False, lastWasA = False, lastLevel = False\<rparr>"
      "\<lparr>hall_a = (0::nat), hall_b = 1, hall_position = 7\<rparr>" "()"]
  by (simp add: deliver_def)

text \<open>
  C4. The goroutine started by \<open>Start\<close> sets its four locals to the constant \<open>true\<close>,
  whatever the lines read. So when the first delivery after \<open>Start\<close> is level \<open>true\<close> on
  channel A, the duplicate filter drops it: the loop goes round again with the
  counter and the locals unchanged, for every encoder and so for every line level
  there was.
\<close>

theorem hall_first_A_true_after_start_discarded:
  "hall_locals_init = \<lparr>aLevel = True, bLevel = True, lastWasA = True, lastLevel = True\<rparr> \<and>
   HallEncoder_Start [deliver (ChanA True)] e = (Continue, e, hall_locals_init) \<and>
   HallEncoder_Position ctx (fst (snd (HallEncoder_Start [deliver (ChanA True)] e))) =
     HallEncoder_Position ctx e"
  by (simp add: HallEncoder_Start_def hall_iteration_def deliver_def hall_decode_def
      hall_locals_init_def)

section \<open>Runs of the Hall loop\<close>

lemma hall_loop_append:
  "hall_loop (xs @ ys) st =
     (case hall_loop xs st of (Return, st') \<Rightarrow> (Return, st') | (Continue, st') \<Rightarrow> hall_loop ys st')"
  by (induction xs arbitrary: st) (auto split: prod.splits loop_ctl.splits)

lemma hall_iteration_consistent:
  assumes "hall_consistent l" and "hall_iteration env (e, l) = (c, e', l')"
  shows "hall_consistent l'"
proof (cases "firedAtTop env \<or> chosen env = CtxDone")
  case True
  then show ?thesis using assms hall_iteration_cancelled [OF True, of "(e, l)"] by simp
next
  case False
  then obtain ev where ev: "\<not> firedAtTop env" "chosen env = Recv ev"
    by (cases "chosen env") auto
  show ?thesis
    using assms
    by (cases ev)
      (auto simp: hall_iteration_event [OF ev] hall_decode_position hall_consistent_def
        split: if_splits)
qed

lemma hall_loop_consistent:
  "hall_consistent l \<Longrightarrow> hall_consistent (snd (snd (hall_loop envs (e, l))))"
proof (induction envs arbitrary: e l)
  case Nil
  then show ?case by simp
next
  case (Cons env envs)
  obtain c e' l' where it: "hall_iteration env (e, l) = (c, e', l')"
    by (cases "hall_iteration env (e, l)") auto
  from hall_iteration_consistent [OF Cons.prems it] have l': "hall_consistent l'" .
  from Cons.IH [OF l', of e'] show ?case
    using it l' by (cases c) simp_all
qed

lemma hall_locals_init_consistent: "hall_consistent hall_locals_init"
  by (simp add: hall_consistent_def hall_locals_init_def)

lemma rotation_example:
  "forward_rotation False False = [ChanA True, ChanB True, ChanA False, ChanB False] \<and>
   reverse_rotation False False = [ChanB True, ChanA True, ChanB False, ChanA False]"
  by (simp add: forward_rotation_def reverse_rotation_def)

text \<open>One rotation: every edge is accepted, and all four move the counter the same way.\<close>

lemma forward_cycle:
  assumes "hall_consistent l"
  shows "hall_loop (map deliver (forward_rotation (aLevel l) (bLevel l))) (e, l) =
     (Continue, e\<lparr>hall_position := hall_position e - 4\<rparr>,
      l\<lparr>lastWasA := (aLevel l \<noteq> bLevel l), lastLevel := aLevel l\<rparr>)"
  using assms
  by (cases l)
    (auto simp: hall_consistent_def forward_rotation_def hall_iteration_deliver
      hall_decode_position hall_table_eq)

lemma reverse_cycle:
  assumes "hall_consistent l"
  shows "hall_loop (map deliver (reverse_rotation (aLevel l) (bLevel l))) (e, l) =
     (Continue, e\<lparr>hall_position := hall_position e + 4\<rparr>,
      l\<lparr>lastWasA := (aLevel l = bLevel l), lastLevel := bLevel l\<rparr>)"
  using assms
  by (cases l)
    (auto simp: hall_consistent_def reverse_rotation_def hall_iteration_deliver
      hall_decode_position hall_table_eq)

lemma forward_cycles:
  assumes "hall_consistent l"
  shows "\<exists>l'. hall_loop (map deliver (concat (replicate n (forward_rotation (aLevel l) (bLevel l))))) (e, l) =
     (Continue, e\<lparr>hall_position := hall_position e - 4 * of_nat n\<rparr>, l') \<and>
     hall_consistent l' \<and> aLevel l' = aLevel l \<and> bLevel l' = bLevel l"
  using assms
proof (induction n arbitrary: e l)
  case 0
  then show ?case by simp
next
  case (Suc n)
  let ?l1 = "l\<lparr>lastWasA := (aLevel l \<noteq> bLevel l), lastLevel := aLevel l\<rparr>"
  let ?e1 = "e\<lparr>hall_position := hall_position e - 4\<rparr>"
  have c1: "hall_consistent ?l1" by (simp add: hall_consistent_def)
  have lv: "aLevel ?l1 = aLevel l" "bLevel ?l1 = bLevel l" by simp_all
  from Suc.IH [OF c1, of ?e1] obtain l' where
    run: "hall_loop (map deliver (concat (replicate n (forward_rotation (aLevel l) (bLevel l))))) (?e1, ?l1) =
       (Continue, ?e1\<lparr>hall_position := hall_position ?e1 - 4 * of_nat n\<rparr>, l')"
    and l': "hall_consistent l'" "aLevel l' = aLevel l" "bLevel l' = bLevel l"
    unfolding lv by blast
  have pos: "?e1\<lparr>hall_position := hall_position ?e1 - 4 * of_nat n\<rparr> =
      e\<lparr>hall_position := hall_position e - 4 * of_nat (Suc n)\<rparr>"
    by (simp add: algebra_simps)
  have "hall_loop (map deliver (concat (replicate (Suc n) (forward_rotation (aLevel l) (bLevel l))))) (e, l) =
      hall_loop (map deliver (concat (replicate n (forward_rotation (aLevel l) (bLevel l))))) (?e1, ?l1)"
    by (simp only: replicate_Suc concat.simps map_append hall_loop_append
        forward_cycle [OF Suc.prems] prod.case loop_ctl.case)
  then have "hall_loop (map deliver (concat (replicate (Suc n) (forward_rotation (aLevel l) (bLevel l))))) (e, l) =
      (Continue, e\<lparr>hall_position := hall_position e - 4 * of_nat (Suc n)\<rparr>, l')"
    by (simp only: run pos)
  with l' show ?case by blast
qed

lemma reverse_cycles:
  assumes "hall_consistent l"
  shows "\<exists>l'. hall_loop (map deliver (concat (replicate n (reverse_rotation (aLevel l) (bLevel l))))) (e, l) =
     (Continue, e\<lparr>hall_position := hall_position e + 4 * of_nat n\<rparr>, l') \<and>
     hall_consistent l' \<and> aLevel l' = aLevel l \<and> bLevel l' = bLevel l"
  using assms
proof (induction n arbitrary: e l)
  case 0
  then show ?case by simp
next
  case (Suc n)
  let ?l1 = "l\<lparr>lastWasA := (aLevel l = bLevel l), lastLevel := bLevel l\<rparr>"
  let ?e1 = "e\<lparr>hall_position := hall_position e + 4\<rparr>"
  have c1: "hall_consistent ?l1" by (simp add: hall_consistent_def)
  have lv: "aLevel ?l1 = aLevel l" "bLevel ?l1 = bLevel l" by simp_all
  from Suc.IH [OF c1, of ?e1] obtain l' where
    run: "hall_loop (map deliver (concat (replicate n (reverse_rotation (aLevel l) (bLevel l))))) (?e1, ?l1) =
       (Continue, ?e1\<lparr>hall_position := hall_position ?e1 + 4 * of_nat n\<rparr>, l')"
    and l': "hall_consistent l'" "aLevel l' = aLevel l" "bLevel l' = bLevel l"
    unfolding lv by blast
  have pos: "?e1\<lparr>hall_position := hall_position ?e1 + 4 * of_nat n\<rparr> =
      e\<lparr>hall_position := hall_position e + 4 * of_nat (Suc n)\<rparr>"
    by (simp add: algebra_simps)
  have "hall_loop (map deliver (concat (replicate (Suc n) (reverse_rotation (aLevel l) (bLevel l))))) (e, l) =
      hall_loop (map deliver (concat (replicate n (reverse_rotation (aLevel l) (bLevel l))))) (?e1, ?l1)"
    by (simp only: replicate_Suc concat.simps map_append hall_loop_append
        reverse_cycle [OF Suc.prems] prod.case loop_ctl.case)
  then have "hall_loop (map deliver (concat (replicate (Suc n) (reverse_rotation (aLevel l) (bLevel l))))) (e, l) =
      (Continue, e\<lparr>hall_position := hall_position e + 4 * of_nat (Suc n)\<rparr>, l')"
    by (simp only: run pos)
  with l' show ?case by blast
qed

text \<open>
  C2, as the code has it. In every loop state where the level remembered for the last
  accepted event is the cached level of its channel (so in every state the loop
  reaches from \<open>Start\<close>), delivering \<open>n\<close> times the four edges of a forward rotation
  that begins at the cached levels changes \<open>Position\<close> by exactly \<open>- 4 * n\<close>, the
  reverse rotation changes it by exactly \<open>+ 4 * n\<close>, and \<open>n\<close> forward rotations followed
  by \<open>n\<close> reverse ones bring it back. The counter is an \<open>int64\<close>; the differences are
  taken in its wrap-around arithmetic.
\<close>

theorem hall_rotation_counts_four:
  "hall_consistent (snd (snd (HallEncoder_Start envs e0))) \<and>
   (hall_consistent l \<longrightarrow>
      fst (HallEncoder_Position ctx (fst (snd (hall_loop
        (map deliver (concat (replicate n (forward_rotation (aLevel l) (bLevel l))))) (e, l))))) =
        fst (HallEncoder_Position ctx e) - 4 * of_nat n \<and>
      fst (HallEncoder_Position ctx (fst (snd (hall_loop
        (map deliver (concat (replicate n (reverse_rotation (aLevel l) (bLevel l))))) (e, l))))) =
        fst (HallEncoder_Position ctx e) + 4 * of_nat n \<and>
      fst (HallEncoder_Position ctx (fst (snd (hall_loop
        (map deliver (concat (replicate n (forward_rotation (aLevel l) (bLevel l))) @
                      concat (replicate n (reverse_rotation (aLevel l) (bLevel l))))) (e, l))))) =
        fst (HallEncoder_Position ctx e))"
proof -
  have st: "hall_consistent (snd (snd (HallEncoder_Start envs e0)))"
    unfolding HallEncoder_Start_def
    by (rule hall_loop_consistent [OF hall_locals_init_consistent])
  let ?F = "map deliver (concat (replicate n (forward_rotation (aLevel l) (bLevel l))))"
  let ?R = "map deliver (concat (replicate n (reverse_rotation (aLevel l) (bLevel l))))"
  let ?e1 = "e\<lparr>hall_position := hall_position e - 4 * of_nat n\<rparr>"
  have rot:
    "fst (HallEncoder_Position ctx (fst (snd (hall_loop ?F (e, l))))) =
       fst (HallEncoder_Position ctx e) - 4 * of_nat n \<and>
     fst (HallEncoder_Position ctx (fst (snd (hall_loop ?R (e, l))))) =
       fst (HallEncoder_Position ctx e) + 4 * of_nat n \<and>
     fst (HallEncoder_Position ctx (fst (snd (hall_loop (?F @ ?R) (e, l))))) =
       fst (HallEncoder_Position ctx e)"
    if c: "hall_consistent l"
  proof -
    from forward_cycles [OF c, of n e] obtain l1 where
      f: "hall_loop ?F (e, l) = (Continue, ?e1, l1)"
      and l1: "hall_consistent l1" "aLevel l1 = aLevel l" "bLevel l1 = bLevel l"
      by blast
    from reverse_cycles [OF c, of n e] obtain l2 where
      r: "hall_loop ?R (e, l) = (Continue, e\<lparr>hall_position := hall_position e + 4 * of_nat n\<rparr>, l2)"
      by blast
    from reverse_cycles [OF l1(1), of n ?e1] obtain l3 where
      fr: "hall_loop ?R (?e1, l1) =
         (Continue, ?e1\<lparr>hall_position := hall_position ?e1 + 4 * of_nat n\<rparr>, l3)"
      unfolding l1(2,3) by blast
    have both: "hall_loop (?F @ ?R) (e, l) =
        (Continue, ?e1\<lparr>hall_position := hall_position ?e1 + 4 * of_nat n\<rparr>, l3)"
      by (simp only: hall_loop_append f fr prod.case loop_ctl.case)
    show ?thesis
      by (simp add: f r both HallEncoder_Position_def)
  qed
  from st rot show ?thesis by (simp only: map_append) blast
qed

theorem hall_rotation_counts_four_witness:
  "fst (HallEncoder_Position () (fst (snd (hall_loop
      (map deliver (concat (replicate 2 (forward_rotation True True))))
      (NewHallEncoder (0::nat) 1, hall_locals_init))))) = - 8 \<and>
   fst (HallEncoder_Position () (fst (snd (hall_loop
      (map deliver (concat (replicate 2 (reverse_rotation True True))))
      (NewHallEncoder (0::nat) 1, hall_locals_init))))) = 8"
  using hall_rotation_counts_four
    [of "[]" "NewHallEncoder (0::nat) 1" hall_locals_init "()" 2 "NewHallEncoder (0::nat) 1"]
  by (simp add: hall_consistent_def hall_locals_init_def NewHallEncoder_def HallEncoder_Position_def)

text \<open>
  C2 as stated, for every starting state, fails in the state \<open>Start\<close> itself sets up.
  There the cached levels are \<open>(true, true)\<close>, while the example rotation begins at
  \<open>(false, false)\<close>: the first edge, A rising, is dropped by the duplicate filter, and the
  other three each decrement. \<open>Position\<close> goes from 0 to -3, neither +4 nor -4.
\<close>

theorem hall_rotation_after_start_counterexample:
  "fst (HallEncoder_Position () (fst (snd (HallEncoder_Start
      (map deliver [ChanA True, ChanB True, ChanA False, ChanB False])
      (NewHallEncoder (0::nat) 1))))) = - 3 \<and>
   (- 3 :: int64) \<noteq> fst (HallEncoder_Position () (NewHallEncoder (0::nat) 1)) + 4 \<and>
   (- 3 :: int64) \<noteq> fst (HallEncoder_Position () (NewHallEncoder (0::nat) 1)) - 4"
  by (simp add: HallEncoder_Start_def hall_iteration_def deliver_def hall_decode_def hall_table_def
      HallEncoder_inc_def HallEncoder_dec_def HallEncoder_Position_def NewHallEncoder_def
      hall_locals_init_def)

section \<open>The single-pulse loop\<close>

text \<open>
  C5. For every pulse the SingleEncoder loop processes: when the direction read is
  FORWARD the counter goes up by 1, when it is BACKWARD it goes down by 1, and no
  warning is logged in either case; for any other direction the counter stays and the
  warning is logged exactly when \<open>rpmDebug\<close> is set.
\<close>

theorem single_pulse_direction_dispatch:
  "\<not> firedAtTop env \<and> chosen env = Recv ev \<longrightarrow>
     (rawDirection ev = DIRECTION_RELATIVE_FORWARD \<longrightarrow>
        single_iteration rpmDebug env (e, warnings) =
          (Continue, e\<lparr>single_position := single_position e + 1\<rparr>, warnings)) \<and>
     (rawDirection ev = DIRECTION_RELATIVE_BACKWARD \<longrightarrow>
        single_iteration rpmDebug env (e, warnings) =
          (Continue, e\<lparr>single_position := single_position e - 1\<rparr>, warnings)) \<and>
     (rawDirection ev \<noteq> DIRECTION_RELATIVE_FORWARD \<and> rawDirection ev \<noteq> DIRECTION_RELATIVE_BACKWARD \<longrightarrow>
        single_iteration rpmDebug env (e, warnings) =
          (Continue, e,
           if rpmDebug then warnings @ [''got encoder tick but motor should be off''] else warnings))"
  by (simp add: single_iteration_def single_count_def)

theorem single_pulse_direction_dispatch_witness:
  "single_iteration True (deliver \<lparr>pulse = True, rawDirection = DIRECTION_RELATIVE_UNSPECIFIED\<rparr>)
     (\<lparr>single_i = (0::nat), single_position = 5, single_M = Some (1::nat)\<rparr>, []) =
   (Continue, \<lparr>single_i = 0, single_position = 5, single_M = Some 1\<rparr>,
      [''got encoder tick but motor should be off'']) \<and>
   single_iteration True (deliver \<lparr>pulse = True, rawDirection = DIRECTION_RELATIVE_FORWARD\<rparr>)
     (\<lparr>single_i = (0::nat), single_position = 5, single_M = Some (1::nat)\<rparr>, []) =
   (Continue, \<lparr>single_i = 0, single_position = 6, single_M = Some 1\<rparr>, []) \<and>
   single_iteration True (deliver \<lparr>pulse = True, rawDirection = DIRECTION_RELATIVE_BACKWARD\<rparr>)
     (\<lparr>single_i = (0::nat), single_position = 5, single_M = Some (1::nat)\<rparr>, []) =
   (Continue, \<lparr>single_i = 0, single_position = 4, single_M = Some 1\<rparr>, [])"
  using
    single_pulse_direction_dispatch
      [of "deliver \<lparr>pulse = True, rawDirection = DIRECTION_RELATIVE_UNSPECIFIED\<rparr>"
        "\<lparr>pulse = True, rawDirection = DIRECTION_RELATIVE_UNSPECIFIED\<rparr>" True
        "\<lparr>single_i = (0::nat), single_position = 5, single_M = Some (1::nat)\<rparr>" "[]"]
    single_pulse_direction_dispatch
      [of "deliver \<lparr>pulse = True, rawDirection = DIRECTION_RELATIVE_FORWARD\<rparr>"
        "\<lparr>pulse = True, rawDirection = DIRECTION_RELATIVE_FORWARD\<rparr>" True
        "\<lparr>single_i = (0::nat), single_position = 5, single_M = Some (1::nat)\<rparr>" "[]"]
    single_pulse_direction_dispatch
      [of "deliver \<lparr>pulse = True, rawDirection = DIRECTION_RELATIVE_BACKWARD\<rparr>"
        "\<lparr>pulse = True, rawDirection = DIRECTION_RELATIVE_BACKWARD\<rparr>" True
        "\<lparr>single_i = (0::nat), single_position = 5, single_M = Some (1::nat)\<rparr>" "[]"]
  by (simp add: deliver_def)

section \<open>Iterations that leave the counter alone\<close>


lemma hall_iteration_not_accepted:
  assumes "\<not> hall_accepts env l" and "hall_iteration env (e, l) = (c, e', l')"
  shows "e' = e \<and> lastWasA l' = lastWasA l \<and> lastLevel l' = lastLevel l"
proof (cases "firedAtTop env \<or> chosen env = CtxDone")
  case True
  then show ?thesis using assms(2) hall_iteration_cancelled [OF True, of "(e, l)"] by simp
next
  case False
  then obtain ev where ev: "\<not> firedAtTop env" "chosen env = Recv ev"
    by (cases "chosen env") auto
  with assms(1) have dup: "hall_isA ev = lastWasA l" "hall_level ev = lastLevel l"
    by (auto simp: hall_accepts_def)
  show ?thesis
    using assms(2) dup
    by (auto simp: hall_iteration_event [OF ev] hall_decode_position split: if_splits)
qed


lemma single_iteration_cancelled:
  "firedAtTop env \<or> chosen env = CtxDone \<Longrightarrow> single_iteration dbg env st = (Return, st)"
  by (auto simp: single_iteration_def)



lemma hall_table_moves_one:
  "(hall_position (hall_table l e) = hall_position e + 1 \<or>
    hall_position (hall_table l e) = hall_position e - 1) \<and>
   hall_position (hall_table l e) \<noteq> hall_position e"
  by (simp add: hall_table_position)

lemma hall_iteration_accepted:
  assumes "hall_accepts env l"
  shows "\<exists>l2. hall_iteration env (e, l) = (Continue, hall_table l2 e, l2)"
proof -
  from assms obtain ev where ev: "\<not> firedAtTop env" "chosen env = Recv ev"
    and nd: "\<not> (hall_isA ev = lastWasA l \<and> hall_level ev = lastLevel l)"
    by (cases "chosen env") (auto simp: hall_accepts_def)
  show ?thesis
    using nd by (cases ev) (auto simp: hall_iteration_def ev hall_decode_def Let_def)
qed



text \<open>
  C8, as the code has it. In one iteration of the Hall loop an accepted edge moves the
  position by exactly +1 or -1 in \<open>int64\<close> arithmetic, never by 0, and every other
  iteration (cancelled or filtered) leaves it. In one iteration of the single-pulse
  loop a processed pulse moves the position by +1 when the direction read is FORWARD,
  by -1 when it is BACKWARD, and by 0 for any other direction; a cancelled iteration
  leaves it.
\<close>

theorem position_changes_by_one_or_pulse_by_zero:
  assumes "hall_iteration env (e, l) = (c, e', l')"
    and "single_iteration dbg penv (s, ws) = (c2, s', ws')"
  shows "(hall_accepts env l \<longrightarrow>
            (hall_position e' = hall_position e + 1 \<or> hall_position e' = hall_position e - 1) \<and>
            hall_position e' \<noteq> hall_position e) \<and>
         (\<not> hall_accepts env l \<longrightarrow> hall_position e' = hall_position e) \<and>
         (\<not> firedAtTop penv \<and> chosen penv = Recv pev \<longrightarrow>
            (rawDirection pev = DIRECTION_RELATIVE_FORWARD \<longrightarrow>
               single_position s' = single_position s + 1 \<and>
               single_position s' \<noteq> single_position s) \<and>
            (rawDirection pev = DIRECTION_RELATIVE_BACKWARD \<longrightarrow>
               single_position s' = single_position s - 1 \<and>
               single_position s' \<noteq> single_position s) \<and>
            (rawDirection pev \<noteq> DIRECTION_RELATIVE_FORWARD \<and>
             rawDirection pev \<noteq> DIRECTION_RELATIVE_BACKWARD \<longrightarrow>
               single_position s' = single_position s)) \<and>
         (firedAtTop penv \<or> chosen penv = CtxDone \<longrightarrow>
            single_position s' = single_position s)"
proof -
  have h1: "(hall_position e' = hall_position e + 1 \<or> hall_position e' = hall_position e - 1) \<and>
      hall_position e' \<noteq> hall_position e"
    if acc: "hall_accepts env l"
  proof -
    from hall_iteration_accepted [OF acc, of e] assms(1)
    obtain l2 where "e' = hall_table l2 e" by auto
    then show ?thesis using hall_table_moves_one [of l2 e] by simp
  qed
  have h2: "\<not> hall_accepts env l \<Longrightarrow> hall_position e' = hall_position e"
    using hall_iteration_not_accepted [OF _ assms(1)] by simp
  have run: "s' = fst (single_count dbg (rawDirection pev) (s, ws))"
    if "\<not> firedAtTop penv" and "chosen penv = Recv pev"
    using assms(2) that by (simp add: single_iteration_def)
  have s1: "single_position s' = single_position s + 1 \<and> single_position s' \<noteq> single_position s"
    if "\<not> firedAtTop penv" and "chosen penv = Recv pev"
      and "rawDirection pev = DIRECTION_RELATIVE_FORWARD"
    using run [OF that(1,2)] that(3) by (simp add: single_count_def)
  have s2: "single_position s' = single_position s - 1 \<and> single_position s' \<noteq> single_position s"
    if "\<not> firedAtTop penv" and "chosen penv = Recv pev"
      and "rawDirection pev = DIRECTION_RELATIVE_BACKWARD"
    using run [OF that(1,2)] that(3) by (simp add: single_count_def)
  have s3: "single_position s' = single_position s"
    if "\<not> firedAtTop penv" and "chosen penv = Recv pev"
      and "rawDirection pev \<noteq> DIRECTION_RELATIVE_FORWARD"
      and "rawDirection pev \<noteq> DIRECTION_RELATIVE_BACKWARD"
    using run [OF that(1,2)] that(3,4) by (simp add: single_count_def)
  have s4: "single_position s' = single_position s"
    if "firedAtTop penv \<or> chosen penv = CtxDone"
    using assms(2) single_iteration_cancelled [OF that, of dbg "(s, ws)"] by simp
  from h1 h2 s1 s2 s3 s4 show ?thesis by blast
qed

theorem position_changes_by_one_or_pulse_by_zero_witness:
  "hall_position (fst (snd (hall_iteration (deliver (ChanA False))
      (NewHallEncoder (0::nat) 1, hall_locals_init)))) = - 1 \<and>
   hall_position (fst (snd (hall_iteration (deliver (ChanA True))
      (NewHallEncoder (0::nat) 1, hall_locals_init)))) = 0 \<and>
   single_position (fst (snd (single_iteration False (deliver \<lparr>pulse = True, rawDirection = DIRECTION_RELATIVE_FORWARD\<rparr>)
      (\<lparr>single_i = (0::nat), single_position = 5, single_M = Some (1::nat)\<rparr>, [])))) = 6 \<and>
   single_position (fst (snd (single_iteration False (deliver \<lparr>pulse = True, rawDirection = DIRECTION_RELATIVE_BACKWARD\<rparr>)
      (\<lparr>single_i = (0::nat), single_position = 5, single_M = Some (1::nat)\<rparr>, [])))) = 4 \<and>
   single_position (fst (snd (single_iteration False (deliver \<lparr>pulse = True, rawDirection = DIRECTION_RELATIVE_UNSPECIFIED\<rparr>)
      (\<lparr>single_i = (0::nat), single_position = 5, single_M = Some (1::nat)\<rparr>, [])))) = 5 \<and>
   single_position (fst (snd (single_iteration False (\<lparr>firedAtTop = False, firedAtRecv = True, chosen = CtxDone\<rparr>)
      (\<lparr>single_i = (0::nat), single_position = 5, single_M = Some (1::nat)\<rparr>, [])))) = 5"
  using
    position_changes_by_one_or_pulse_by_zero
      [where env = "deliver (ChanA False)" and e = "NewHallEncoder (0::nat) 1" and l = hall_locals_init
        and c = "fst (hall_iteration (deliver (ChanA False)) (NewHallEncoder (0::nat) 1, hall_locals_init))"
        and e' = "fst (snd (hall_iteration (deliver (ChanA False)) (NewHallEncoder (0::nat) 1, hall_locals_init)))"
        and l' = "snd (snd (hall_iteration (deliver (ChanA False)) (NewHallEncoder (0::nat) 1, hall_locals_init)))"
        and dbg = False and penv = "deliver \<lparr>pulse = True, rawDirection = DIRECTION_RELATIVE_FORWARD\<rparr>"
        and pev = "\<lparr>pulse = True, rawDirection = DIRECTION_RELATIVE_FORWARD\<rparr>"
        and s = "\<lparr>single_i = (0::nat), single_position = 5, single_M = Some (1::nat)\<rparr>"
        and ws = "[]"
        and ?c2.0 = "fst (single_iteration False (deliver \<lparr>pulse = True, rawDirection = DIRECTION_RELATIVE_FORWARD\<rparr>) (\<lparr>single_i = (0::nat), single_position = 5, single_M = Some (1::nat)\<rparr>, []))"
        and s' = "fst (snd (single_iteration False (deliver \<lparr>pulse = True, rawDirection = DIRECTION_RELATIVE_FORWARD\<rparr>) (\<lparr>single_i = (0::nat), single_position = 5, single_M = Some (1::nat)\<rparr>, [])))"
        and ws' = "snd (snd (single_iteration False (deliver \<lparr>pulse = True, rawDirection = DIRECTION_RELATIVE_FORWARD\<rparr>) (\<lparr>single_i = (0::nat), single_position = 5, single_M = Some (1::nat)\<rparr>, [])))"]
    position_changes_by_one_or_pulse_by_zero
      [where env = "deliver (ChanA True)" and e = "NewHallEncoder (0::nat) 1" and l = hall_locals_init
        and c = "fst (hall_iteration (deliver (ChanA True)) (NewHallEncoder (0::nat) 1, hall_locals_init))"
        and e' = "fst (snd (hall_iteration (deliver (ChanA True)) (NewHallEncoder (0::nat) 1, hall_locals_init)))"
        and l' = "snd (snd (hall_iteration (deliver (ChanA True)) (NewHallEncoder (0::nat) 1, hall_locals_init)))"
        and dbg = False and penv = "deliver \<lparr>pulse = True, rawDirection = DIRECTION_RELATIVE_BACKWARD\<rparr>"
        and pev = "\<lparr>pulse = True, rawDirection = DIRECTION_RELATIVE_BACKWARD\<rparr>"
        and s = "\<lparr>single_i = (0::nat), single_position = 5, single_M = Some (1::nat)\<rparr>"
        and ws = "[]"
        and ?c2.0 = "fst (single_iteration False (deliver \<lparr>pulse = True, rawDirection = DIRECTION_RELATIVE_BACKWARD\<rparr>) (\<lparr>single_i = (0::nat), single_position = 5, single_M = Some (1::nat)\<rparr>, []))"
        and s' = "fst (snd (single_iteration False (deliver \<lparr>pulse = True, rawDirection = DIRECTION_RELATIVE_BACKWARD\<rparr>) (\<lparr>single_i = (0::nat), single_position = 5, single_M = Some (1::nat)\<rparr>, [])))"
        and ws' = "snd (snd (single_iteration False (deliver \<lparr>pulse = True, rawDirection = DIRECTION_RELATIVE_BACKWARD\<rparr>) (\<lparr>single_i = (0::nat), single_position = 5, single_M = Some (1::nat)\<rparr>, [])))"]
    position_changes_by_one_or_pulse_by_zero
      [where env = "deliver (ChanA False)" and e = "NewHallEncoder (0::nat) 1" and l = hall_locals_init
        and c = "fst (hall_iteration (deliver (ChanA False)) (NewHallEncoder (0::nat) 1, hall_locals_init))"
        and e' = "fst (snd (hall_iteration (deliver (ChanA False)) (NewHallEncoder (0::nat) 1, hall_locals_init)))"
        and l' = "snd (snd (hall_iteration (deliver (ChanA False)) (NewHallEncoder (0::nat) 1, hall_locals_init)))"
        and dbg = False and penv = "deliver \<lparr>pulse = True, rawDirection = DIRECTION_RELATIVE_UNSPECIFIED\<rparr>"
        and pev = "\<lparr>pulse = True, rawDirection = DIRECTION_RELATIVE_UNSPECIFIED\<rparr>"
        and s = "\<lparr>single_i = (0::nat), single_position = 5, single_M = Some (1::nat)\<rparr>"
        and ws = "[]"
        and ?c2.0 = "fst (single_iteration False (deliver \<lparr>pulse = True, rawDirection = DIRECTION_RELATIVE_UNSPECIFIED\<rparr>) (\<lparr>single_i = (0::nat), single_position = 5, single_M = Some (1::nat)\<rparr>, []))"
        and s' = "fst (snd (single_iteration False (deliver \<lparr>pulse = True, rawDirection = DIRECTION_RELATIVE_UNSPECIFIED\<rparr>) (\<lparr>single_i = (0::nat), single_position = 5, single_M = Some (1::nat)\<rparr>, [])))"
        and ws' = "snd (snd (single_iteration False (deliver \<lparr>pulse = True, rawDirection = DIRECTION_RELATIVE_UNSPECIFIED\<rparr>) (\<lparr>single_i = (0::nat), single_position = 5, single_M = Some (1::nat)\<rparr>, [])))"]
    position_changes_by_one_or_pulse_by_zero
      [where env = "deliver (ChanA False)" and e = "NewHallEncoder (0::nat) 1" and l = hall_locals_init
        and c = "fst (hall_iteration (deliver (ChanA False)) (NewHallEncoder (0::nat) 1, hall_locals_init))"
        and e' = "fst (snd (hall_iteration (deliver (ChanA False)) (NewHallEncoder (0::nat) 1, hall_locals_init)))"
        and l' = "snd (snd (hall_iteration (deliver (ChanA False)) (NewHallEncoder (0::nat) 1, hall_locals_init)))"
        and dbg = False and penv = "\<lparr>firedAtTop = False, firedAtRecv = True, chosen = CtxDone\<rparr>"
        and pev = "\<lparr>pulse = True, rawDirection = DIRECTION_RELATIVE_FORWARD\<rparr>"
        and s = "\<lparr>single_i = (0::nat), single_position = 5, single_M = Some (1::nat)\<rparr>"
        and ws = "[]"
        and ?c2.0 = "fst (single_iteration False (\<lparr>firedAtTop = False, firedAtRecv = True, chosen = CtxDone\<rparr>) (\<lparr>single_i = (0::nat), single_position = 5, single_M = Some (1::nat)\<rparr>, []))"
        and s' = "fst (snd (single_iteration False (\<lparr>firedAtTop = False, firedAtRecv = True, chosen = CtxDone\<rparr>) (\<lparr>single_i = (0::nat), single_position = 5, single_M = Some (1::nat)\<rparr>, [])))"
        and ws' = "snd (snd (single_iteration False (\<lparr>firedAtTop = False, firedAtRecv = True, chosen = CtxDone\<rparr>) (\<lparr>single_i = (0::nat), single_position = 5, single_M = Some (1::nat)\<rparr>, [])))"]
  by (simp add: hall_accepts_def deliver_def hall_locals_init_def
      NewHallEncoder_def hall_iteration_def hall_decode_def hall_table_def
      HallEncoder_dec_def HallEncoder_inc_def single_iteration_def single_count_def)

text \<open>
  C8 as stated, for the loop of either decoder, fails in the single-pulse loop. A pulse
  that is received and processed while the direction read is neither FORWARD nor
  BACKWARD goes round the loop with the counter where it was: the position changes by
  0, not by +1 or -1.
\<close>

theorem single_pulse_motor_off_counterexample:
  "single_iteration False
     (deliver \<lparr>pulse = True, rawDirection = DIRECTION_RELATIVE_UNSPECIFIED\<rparr>)
     (\<lparr>single_i = (0::nat), single_position = 9, single_M = Some (1::nat)\<rparr>, []) =
   (Continue, \<lparr>single_i = 0, single_position = 9, single_M = Some 1\<rparr>, []) \<and>
   (9 :: int64) \<noteq> 9 + 1 \<and> (9 :: int64) \<noteq> 9 - 1"
  by (simp add: single_iteration_def single_count_def deliver_def)

section \<open>Cancellation\<close>

lemma signal_latched_next:
  "signal_latched (pre @ v # w # rest) \<Longrightarrow> firedAtRecv v \<Longrightarrow> firedAtTop w"
  by (induction pre rule: signal_latched.induct) auto

lemma single_loop_append:
  "single_loop dbg (xs @ ys) st =
     (case single_loop dbg xs st of (Return, st') \<Rightarrow> (Return, st')
      | (Continue, st') \<Rightarrow> single_loop dbg ys st')"
  by (induction xs arbitrary: st) (auto split: prod.splits loop_ctl.splits)

lemma hall_loop_cancelled:
  "firedAtTop w \<or> chosen w = CtxDone \<Longrightarrow>
   hall_loop (pre @ w # rest) st = (Return, snd (hall_loop pre st))"
  by (simp add: hall_loop_append hall_iteration_cancelled split: prod.splits loop_ctl.splits)

lemma single_loop_cancelled:
  "firedAtTop w \<or> chosen w = CtxDone \<Longrightarrow>
   single_loop dbg (pre @ w # rest) st = (Return, snd (single_loop dbg pre st))"
  by (simp add: single_loop_append single_iteration_cancelled split: prod.splits loop_ctl.splits)

text \<open>
  C10, as the code has it. In both loops: an iteration whose top check finds the signal
  fired, or whose blocking \<open>select\<close> takes the cancellation case, returns without
  processing anything, and nothing delivered later is processed. When the signal has
  fired by the time the blocking \<open>select\<close> of an iteration takes its case, the loop has
  returned at the top check of the next iteration at the latest: what it has processed
  is what the iterations up to and including that one processed, so at most the one
  event that this \<open>select\<close> took in the race.
\<close>

theorem cancellation_exits_by_next_top_check:
  "(firedAtTop v \<or> chosen v = CtxDone \<longrightarrow>
      hall_loop (pre @ v # rest) st = (Return, snd (hall_loop pre st))) \<and>
   (signal_latched (pre @ v # w # rest) \<and> firedAtRecv v \<longrightarrow>
      hall_loop (pre @ v # w # rest) st = (Return, snd (hall_loop (pre @ [v]) st))) \<and>
   (firedAtTop pv \<or> chosen pv = CtxDone \<longrightarrow>
      single_loop dbg (ppre @ pv # prest) pst = (Return, snd (single_loop dbg ppre pst))) \<and>
   (signal_latched (ppre @ pv # pw # prest) \<and> firedAtRecv pv \<longrightarrow>
      single_loop dbg (ppre @ pv # pw # prest) pst =
        (Return, snd (single_loop dbg (ppre @ [pv]) pst)))"
proof -
  have a: "firedAtTop v \<or> chosen v = CtxDone \<Longrightarrow>
      hall_loop (pre @ v # rest) st = (Return, snd (hall_loop pre st))"
    by (rule hall_loop_cancelled)
  have b: "signal_latched (pre @ v # w # rest) \<Longrightarrow> firedAtRecv v \<Longrightarrow>
      hall_loop (pre @ v # w # rest) st = (Return, snd (hall_loop (pre @ [v]) st))"
    using hall_loop_cancelled [of w "pre @ [v]" rest st] signal_latched_next [of pre v w rest]
    by simp
  have c: "firedAtTop pv \<or> chosen pv = CtxDone \<Longrightarrow>
      single_loop dbg (ppre @ pv # prest) pst = (Return, snd (single_loop dbg ppre pst))"
    by (rule single_loop_cancelled)
  have d: "signal_latched (ppre @ pv # pw # prest) \<Longrightarrow> firedAtRecv pv \<Longrightarrow>
      single_loop dbg (ppre @ pv # pw # prest) pst =
        (Return, snd (single_loop dbg (ppre @ [pv]) pst))"
    using single_loop_cancelled [of pw dbg "ppre @ [pv]" prest pst]
      signal_latched_next [of ppre pv pw prest]
    by simp
  from a b c d show ?thesis by blast
qed

theorem cancellation_exits_by_next_top_check_witness:
  "hall_loop
     [deliver (ChanB True),
      \<lparr>firedAtTop = False, firedAtRecv = True, chosen = Recv (ChanA False)\<rparr>,
      \<lparr>firedAtTop = True, firedAtRecv = True, chosen = Recv (ChanB False)\<rparr>,
      \<lparr>firedAtTop = True, firedAtRecv = True, chosen = Recv (ChanA True)\<rparr>]
     (NewHallEncoder (0::nat) 1, hall_locals_init) =
   (Return, \<lparr>hall_a = 0, hall_b = 1, hall_position = - 2\<rparr>,
      \<lparr>aLevel = False, bLevel = True, lastWasA = True, lastLevel = False\<rparr>) \<and>
   hall_loop
     [deliver (ChanB True),
      \<lparr>firedAtTop = False, firedAtRecv = True, chosen = CtxDone\<rparr>,
      \<lparr>firedAtTop = True, firedAtRecv = True, chosen = Recv (ChanB False)\<rparr>]
     (NewHallEncoder (0::nat) 1, hall_locals_init) =
   (Return, \<lparr>hall_a = 0, hall_b = 1, hall_position = - 1\<rparr>,
      \<lparr>aLevel = True, bLevel = True, lastWasA = False, lastLevel = True\<rparr>) \<and>
   single_loop False
     [deliver \<lparr>pulse = True, rawDirection = DIRECTION_RELATIVE_FORWARD\<rparr>,
      \<lparr>firedAtTop = False, firedAtRecv = True,
         chosen = Recv \<lparr>pulse = True, rawDirection = DIRECTION_RELATIVE_FORWARD\<rparr>\<rparr>,
      \<lparr>firedAtTop = True, firedAtRecv = True,
         chosen = Recv \<lparr>pulse = True, rawDirection = DIRECTION_RELATIVE_FORWARD\<rparr>\<rparr>]
     (\<lparr>single_i = (0::nat), single_position = 0, single_M = Some (1::nat)\<rparr>, []) =
   (Return, \<lparr>single_i = 0, single_position = 2, single_M = Some 1\<rparr>, []) \<and>
   single_loop False
     [deliver \<lparr>pulse = True, rawDirection = DIRECTION_RELATIVE_FORWARD\<rparr>,
      \<lparr>firedAtTop = False, firedAtRecv = True, chosen = CtxDone\<rparr>,
      \<lparr>firedAtTop = True, firedAtRecv = True,
         chosen = Recv \<lparr>pulse = True, rawDirection = DIRECTION_RELATIVE_FORWARD\<rparr>\<rparr>]
     (\<lparr>single_i = (0::nat), single_position = 0, single_M = Some (1::nat)\<rparr>, []) =
   (Return, \<lparr>single_i = 0, single_position = 1, single_M = Some 1\<rparr>, [])"
  using
    cancellation_exits_by_next_top_check [where pre = "[deliver (ChanB True)]"
      and v = "\<lparr>firedAtTop = False, firedAtRecv = True, chosen = Recv (ChanA False)\<rparr>"
      and w = "\<lparr>firedAtTop = True, firedAtRecv = True, chosen = Recv (ChanB False)\<rparr>"
      and rest = "[\<lparr>firedAtTop = True, firedAtRecv = True, chosen = Recv (ChanA True)\<rparr>]"
      and st = "(NewHallEncoder (0::nat) 1, hall_locals_init)"
      and ppre = "[deliver \<lparr>pulse = True, rawDirection = DIRECTION_RELATIVE_FORWARD\<rparr>]"
      and pv = "\<lparr>firedAtTop = False, firedAtRecv = True,
         chosen = Recv \<lparr>pulse = True, rawDirection = DIRECTION_RELATIVE_FORWARD\<rparr>\<rparr>"
      and pw = "\<lparr>firedAtTop = True, firedAtRecv = True,
         chosen = Recv \<lparr>pulse = True, rawDirection = DIRECTION_RELATIVE_FORWARD\<rparr>\<rparr>"
      and prest = "[]" and dbg = False
      and pst = "(\<lparr>single_i = (0::nat), single_position = 0, single_M = Some (1::nat)\<rparr>, [])"]
    cancellation_exits_by_next_top_check [where pre = "[deliver (ChanB True)]"
      and v = "\<lparr>firedAtTop = False, firedAtRecv = True, chosen = CtxDone\<rparr>"
      and w = "\<lparr>firedAtTop = True, firedAtRecv = True, chosen = Recv (ChanB False)\<rparr>"
      and rest = "[\<lparr>firedAtTop = True, firedAtRecv = True, chosen = Recv (ChanB False)\<rparr>]"
      and st = "(NewHallEncoder (0::nat) 1, hall_locals_init)"
      and ppre = "[deliver \<lparr>pulse = True, rawDirection = DIRECTION_RELATIVE_FORWARD\<rparr>]"
      and pv = "\<lparr>firedAtTop = False, firedAtRecv = True, chosen = CtxDone\<rparr>"
      and pw = "\<lparr>firedAtTop = True, firedAtRecv = True,
         chosen = Recv \<lparr>pulse = True, rawDirection = DIRECTION_RELATIVE_FORWARD\<rparr>\<rparr>"
      and prest = "[\<lparr>firedAtTop = True, firedAtRecv = True,
         chosen = Recv \<lparr>pulse = True, rawDirection = DIRECTION_RELATIVE_FORWARD\<rparr>\<rparr>]"
      and dbg = False
      and pst = "(\<lparr>single_i = (0::nat), single_position = 0, single_M = Some (1::nat)\<rparr>, [])"]
  by (simp add: deliver_def hall_iteration_def hall_decode_def hall_table_def
      HallEncoder_inc_def HallEncoder_dec_def NewHallEncoder_def hall_locals_init_def
      single_iteration_def single_count_def NewSingleEncoder_def)

text \<open>
  C10 as stated, that once the signal has fired the loop processes no further event
  and returns at its next check, fails at the blocking \<open>select\<close>. With the signal fired
  and a delivery ready on \<open>chanA\<close>, Go may take the \<open>chanA\<close> case: the event is decoded,
  the counter moves from 0 to -1 and the iteration goes round again instead of
  returning.
\<close>

theorem cancellation_race_counterexample:
  "firedAtRecv \<lparr>firedAtTop = False, firedAtRecv = True, chosen = Recv (ChanA False)\<rparr> \<and>
   hall_iteration \<lparr>firedAtTop = False, firedAtRecv = True, chosen = Recv (ChanA False)\<rparr>
     (NewHallEncoder (0::nat) 1, hall_locals_init) =
   (Continue, \<lparr>hall_a = 0, hall_b = 1, hall_position = - 1\<rparr>,
      \<lparr>aLevel = False, bLevel = True, lastWasA = True, lastLevel = False\<rparr>)"
  by (simp add: hall_iteration_def hall_decode_def hall_table_def HallEncoder_dec_def
      NewHallEncoder_def hall_locals_init_def)

end
